theory Spec2Isabelle
  imports Main "HOL-Library.Word" "HOL-Library.AList"
begin

section \<open>JavaScript strings\<close>

text \<open>
  A JavaScript string is a sequence of UTF-16 code units, and \<open>.length\<close> counts code
  units. Literals of the source are written \<open>js ''...''\<close>.
\<close>

type_synonym jschar = "16 word"
type_synonym jsstring = "jschar list"

definition js :: "string \<Rightarrow> jsstring" where
  "js s = map of_char s"

text \<open>The decimal rendering of a non-negative integer inside a template literal.\<close>

function decimal :: "nat \<Rightarrow> jsstring" where
  "decimal n = (if n < 10 then [of_nat (48 + n)] else decimal (n div 10) @ [of_nat (48 + n mod 10)])"
  by pat_completeness auto
termination
  by (relation "measure (\<lambda>n. n)") auto

text \<open>
  \<open>String.prototype.trim\<close> strips the code units of ECMAScript's WhiteSpace and
  LineTerminator productions from both ends.
\<close>

definition isWhiteSpace :: "jschar \<Rightarrow> bool" where
  "isWhiteSpace c \<longleftrightarrow> c \<in> set [0x9, 0xA, 0xB, 0xC, 0xD, 0x20, 0xA0, 0x1680,
     0x2000, 0x2001, 0x2002, 0x2003, 0x2004, 0x2005, 0x2006, 0x2007, 0x2008, 0x2009, 0x200A,
     0x2028, 0x2029, 0x202F, 0x205F, 0x3000, 0xFEFF]"

definition trim :: "jsstring \<Rightarrow> jsstring" where
  "trim s = rev (dropWhile isWhiteSpace (rev (dropWhile isWhiteSpace s)))"

text \<open>\<open>Array.prototype.findIndex\<close>, with \<open>None\<close> for \<open>-1\<close>, and \<open>splice(index, 1)\<close>.\<close>

fun findIndex :: "('a \<Rightarrow> bool) \<Rightarrow> 'a list \<Rightarrow> nat option" where
  "findIndex P [] = None"
| "findIndex P (x # xs) = (if P x then Some 0 else map_option Suc (findIndex P xs))"

definition splice1 :: "nat \<Rightarrow> 'a list \<Rightarrow> 'a list" where
  "splice1 i xs = take i xs @ drop (Suc i) xs"

section \<open>Data model\<close>

text \<open>
  The object literal built in \<open>scheduleTweet\<close>. The fields \<open>id\<close> and \<open>text\<close> are
  named \<open>tweet_id\<close> and \<open>tweet_text\<close>; \<open>lastPosted\<close> is \<open>null\<close> or an ISO timestamp.
\<close>

record ScheduledTweet =
  tweet_id :: jsstring
  tweet_text :: jsstring
  cronExpression :: jsstring
  oneTime :: bool
  createdAt :: jsstring
  lastPosted :: "jsstring option"
  postCount :: nat

text \<open>
  The file \<open>data/scheduled-tweets.json\<close>: absent, unreadable (\<open>readFileSync\<close> or
  \<open>JSON.parse\<close> throws, with the given message), or a JSON document whose
  \<open>scheduled\<close> field is missing (\<open>None\<close>) or an array of entries.
\<close>

datatype disk = NoFile | Unreadable jsstring | Json "ScheduledTweet list option"

datatype js_error = Error jsstring

datatype post_result = Resolved | Rejected jsstring

text \<open>
  A task created by \<open>cron.schedule\<close>: the entry its callback closed over, and whether
  the timer is still running. Tasks live in a store indexed by handle, since the
  registry \<open>activeJobs\<close> and the callback's own \<open>job\<close> variable alias the same task.
\<close>

record job =
  captured :: ScheduledTweet
  running :: bool

text \<open>
  The state the module reads and writes: the schedule file, whether \<open>writeFileSync\<close>
  fails (and with which message), the registry \<open>activeJobs\<close> (a Map from id to task,
  in insertion order), the tasks created so far, every text passed to the posting
  function, every line printed with \<open>console.error\<close>, and every document written to
  the file. Lines printed with \<open>console.log\<close> are not part of the model.
\<close>

record world =
  disk :: disk
  fs_write_error :: "jsstring option"
  activeJobs :: "(jsstring \<times> nat) list"
  jobs :: "job list"
  posts :: "jsstring list"
  stderr :: "jsstring list"
  writes :: "ScheduledTweet list list"

text \<open>The readings of the clock and of \<open>Math.random().toString(36)\<close> one call makes.\<close>

record sys =
  date_now :: nat
  random36 :: jsstring
  iso_now :: jsstring

section \<open>Schedule file\<close>

definition loadScheduledTweets :: "world \<Rightarrow> ScheduledTweet list \<times> world" where
  "loadScheduledTweets w =
     (case disk w of
        NoFile \<Rightarrow> ([], w)
      | Unreadable msg \<Rightarrow>
          ([], w\<lparr>stderr := stderr w @ [js ''Failed to load scheduled tweets: '' @ msg]\<rparr>)
      | Json None \<Rightarrow> ([], w)
      | Json (Some tweets) \<Rightarrow> (tweets, w))"

definition saveScheduledTweets :: "ScheduledTweet list \<Rightarrow> world \<Rightarrow> world" where
  "saveScheduledTweets tweets w =
     (case fs_write_error w of
        None \<Rightarrow> w\<lparr>disk := Json (Some tweets), writes := writes w @ [tweets]\<rparr>
      | Some msg \<Rightarrow>
          w\<lparr>stderr := stderr w @ [js ''Failed to save scheduled tweets: '' @ msg]\<rparr>)"

text \<open>\<open>simpleLogger.error\<close> prints the message after a ballot X (U+2717) and a space.\<close>

definition logger_error :: "jsstring \<Rightarrow> world \<Rightarrow> world" where
  "logger_error msg w = w\<lparr>stderr := stderr w @ [[0x2717, 0x20] @ msg]\<rparr>"

section \<open>Scheduler operations\<close>

definition generateId :: "sys \<Rightarrow> jsstring" where
  "generateId s = js ''tweet_'' @ decimal (date_now s) @ js ''_'' @ take 9 (drop 2 (random36 s))"

text \<open>
  \<open>scheduleTweet\<close>; the library function \<open>cron.validate\<close> is the parameter
  \<open>validate\<close>. A thrown \<open>Error\<close> is the result \<open>Inl\<close>.
\<close>

definition scheduleTweet ::
  "(jsstring \<Rightarrow> bool) \<Rightarrow> sys \<Rightarrow> jsstring \<Rightarrow> jsstring \<Rightarrow> bool \<Rightarrow> world
     \<Rightarrow> (js_error + ScheduledTweet) \<times> world" where
  "scheduleTweet validate s txt expr once w =
     (if \<not> validate expr then
        (Inl (Error (js ''Invalid cron expression: '' @ expr)), w)
      else if txt = [] \<or> length (trim txt) = 0 then
        (Inl (Error (js ''Tweet text cannot be empty'')), w)
      else if length txt > 280 then
        (Inl (Error (js ''Tweet exceeds 280 characters ('' @ decimal (length txt)
                       @ js '' chars)'')), w)
      else
        (let scheduledTweet = \<lparr>tweet_id = generateId s, tweet_text = trim txt,
               cronExpression = expr, oneTime = once, createdAt = iso_now s,
               lastPosted = None, postCount = 0\<rparr>;
             (tweets, w1) = loadScheduledTweets w;
             w2 = saveScheduledTweets (tweets @ [scheduledTweet]) w1
         in (Inr scheduledTweet, w2)))"

text \<open>\<open>job.stop()\<close> on the task with handle \<open>h\<close>.\<close>

definition stop :: "nat \<Rightarrow> job list \<Rightarrow> job list" where
  "stop h tasks = (if h < length tasks then tasks[h := (tasks ! h)\<lparr>running := False\<rparr>] else tasks)"

definition removeScheduledTweet :: "jsstring \<Rightarrow> world \<Rightarrow> bool \<times> world" where
  "removeScheduledTweet ident w =
     (let (tweets, w1) = loadScheduledTweets w in
      case findIndex (\<lambda>t. tweet_id t = ident) tweets of
        None \<Rightarrow> (False, logger_error (js ''Scheduled tweet not found: '' @ ident) w1)
      | Some index \<Rightarrow>
          (let w2 = saveScheduledTweets (splice1 index tweets) w1;
               w3 = (case map_of (activeJobs w2) ident of
                       None \<Rightarrow> w2
                     | Some h \<Rightarrow> w2\<lparr>jobs := stop h (jobs w2),
                                     activeJobs := AList.delete ident (activeJobs w2)\<rparr>)
           in (True, w3)))"

definition listScheduledTweets :: "world \<Rightarrow> ScheduledTweet list \<times> world" where
  "listScheduledTweets w = loadScheduledTweets w"

text \<open>
  \<open>startScheduler\<close>: for each loaded entry, \<open>cron.schedule\<close> creates a running task
  whose callback closes over the entry, and \<open>activeJobs.set\<close> registers it under the
  entry's id. The signal handler is outside the model.
\<close>

definition register :: "ScheduledTweet \<Rightarrow> world \<Rightarrow> world" where
  "register tweet w =
     w\<lparr>jobs := jobs w @ [\<lparr>captured = tweet, running = True\<rparr>],
       activeJobs := AList.update (tweet_id tweet) (length (jobs w)) (activeJobs w)\<rparr>"

definition startScheduler :: "world \<Rightarrow> world" where
  "startScheduler w =
     (let (tweets, w1) = loadScheduledTweets w in
      if length tweets = 0 then w1 else foldl (\<lambda>v tweet. register tweet v) w1 tweets)"

text \<open>
  The callback of a task, in two parts: up to the awaited call of the posting
  function, and the continuation after it resolved. \<open>now\<close> is the ISO timestamp read
  in the continuation.
\<close>

definition after_post :: "ScheduledTweet \<Rightarrow> jsstring \<Rightarrow> nat \<Rightarrow> world \<Rightarrow> world" where
  "after_post tweet now h w =
     (let (allTweets, w1) = loadScheduledTweets w in
      case findIndex (\<lambda>t. tweet_id t = tweet_id tweet) allTweets of
        None \<Rightarrow> w1
      | Some tweetIndex \<Rightarrow>
          (let old = allTweets ! tweetIndex;
               updated = allTweets[tweetIndex := old\<lparr>lastPosted := Some now,
                 postCount := (if postCount old = 0 then 0 else postCount old) + 1\<rparr>]
           in if oneTime tweet then
                saveScheduledTweets (splice1 tweetIndex updated)
                  (w1\<lparr>jobs := stop h (jobs w1),
                      activeJobs := AList.delete (tweet_id tweet) (activeJobs w1)\<rparr>)
              else saveScheduledTweets updated w1))"

definition callback :: "(jsstring \<Rightarrow> post_result) \<Rightarrow> jsstring \<Rightarrow> nat \<Rightarrow> world \<Rightarrow> world" where
  "callback postTweetFn now h w =
     (let tweet = captured (jobs w ! h);
          w1 = w\<lparr>posts := posts w @ [tweet_text tweet]\<rparr>
      in case postTweetFn (tweet_text tweet) of
           Resolved \<Rightarrow> after_post tweet now h w1
         | Rejected msg \<Rightarrow>
             logger_error (js ''Failed to post scheduled tweet '' @ tweet_id tweet
                             @ js '': '' @ msg) w1)"

text \<open>A tick of the timer of task \<open>h\<close>: a stopped task does not fire.\<close>

definition tick :: "(jsstring \<Rightarrow> post_result) \<Rightarrow> jsstring \<Rightarrow> nat \<Rightarrow> world \<Rightarrow> world" where
  "tick postTweetFn now h w =
     (if h < length (jobs w) \<and> running (jobs w ! h) then callback postTweetFn now h w else w)"

section \<open>Recurrence validator\<close>

text \<open>
  Modelled from the spec: the library function \<open>cron.validate\<close> is not part of the
  repository. The spec's validator accepts the standard five-field syntax (minute,
  hour, day of month, month, day of week), each field a comma list of \<open>*\<close>, single
  values, ranges \<open>a-b\<close> and steps \<open>*/n\<close>; the bounds are those of standard cron.
\<close>

fun split_on :: "'a \<Rightarrow> 'a list \<Rightarrow> 'a list list" where
  "split_on s [] = [[]]"
| "split_on s (c # cs) =
     (if c = s then [] # split_on s cs
      else (case split_on s cs of [] \<Rightarrow> [[c]] | f # fs \<Rightarrow> (c # f) # fs))"

definition number :: "jsstring \<Rightarrow> nat option" where
  "number s =
     (if s \<noteq> [] \<and> list_all (\<lambda>c. 0x30 \<le> c \<and> c \<le> 0x39) s
      then Some (foldl (\<lambda>n c. 10 * n + (unat c - 48)) 0 s) else None)"

definition single_value :: "nat \<Rightarrow> nat \<Rightarrow> jsstring \<Rightarrow> bool" where
  "single_value lo hi s = (case number s of None \<Rightarrow> False | Some n \<Rightarrow> lo \<le> n \<and> n \<le> hi)"

definition range_value :: "nat \<Rightarrow> nat \<Rightarrow> jsstring \<Rightarrow> bool" where
  "range_value lo hi s =
     (case split_on 0x2D s of
        [a, b] \<Rightarrow> (case (number a, number b) of
                     (Some x, Some y) \<Rightarrow> lo \<le> x \<and> x \<le> y \<and> y \<le> hi
                   | _ \<Rightarrow> False)
      | _ \<Rightarrow> False)"

definition step_value :: "jsstring \<Rightarrow> bool" where
  "step_value s =
     (case split_on 0x2F s of
        [a, n] \<Rightarrow> a = js ''*'' \<and> (case number n of None \<Rightarrow> False | Some k \<Rightarrow> 0 < k)
      | _ \<Rightarrow> False)"

definition valid_field :: "nat \<Rightarrow> nat \<Rightarrow> jsstring \<Rightarrow> bool" where
  "valid_field lo hi f =
     list_all (\<lambda>s. s = js ''*'' \<or> single_value lo hi s \<or> range_value lo hi s \<or> step_value s)
       (split_on 0x2C f)"

text \<open>
  Modelled from the spec: \<open>isValidRecurrence\<close> of the spec's section 4.2, standing for
  the library's \<open>cron.validate\<close> in the examples.
\<close>

definition isValidRecurrence :: "jsstring \<Rightarrow> bool" where
  "isValidRecurrence e =
     (case split_on 0x20 e of
        [mi, ho, dm, mo, dw] \<Rightarrow>
          valid_field 0 59 mi \<and> valid_field 0 23 ho \<and> valid_field 1 31 dm
          \<and> valid_field 1 12 mo \<and> valid_field 0 7 dw
      | _ \<Rightarrow> False)"

section \<open>Derived notions and example states\<close>

text \<open>What \<open>loadScheduledTweets()\<close> (and so \<open>listScheduledTweets()\<close>) returns in a state.\<close>

definition stored :: "world \<Rightarrow> ScheduledTweet list" where
  "stored w = fst (loadScheduledTweets w)"

text \<open>
  Task \<open>h\<close> is a live timer of the stored entry \<open>e\<close>: it is running, and the entry
  its callback closed over has the id and the one-time flag of \<open>e\<close> (no operation
  changes either field of a stored entry).
\<close>

definition live_timer :: "world \<Rightarrow> nat \<Rightarrow> ScheduledTweet \<Rightarrow> bool" where
  "live_timer w h e \<longleftrightarrow>
     h < length (jobs w) \<and> running (jobs w ! h)
     \<and> tweet_id (captured (jobs w ! h)) = tweet_id e
     \<and> oneTime (captured (jobs w ! h)) = oneTime e"

text \<open>
  Example states: a process that has just started, with no schedule file; the state
  after \<open>schedule "Daily update" "0 9 * * *"\<close>; the daemon started on that file; and
  the daemon's state after a second process (the command \<open>remove\<close>, whose own
  registry is empty) has removed the entry from the shared file.
\<close>

definition sys0 :: sys where
  "sys0 = \<lparr>date_now = 1700000000000, random36 = js ''0.k3j9x2m1qz8'',
           iso_now = js ''2023-11-14T22:13:20.000Z''\<rparr>"

definition sys1 :: sys where
  "sys1 = \<lparr>date_now = 1700000360000, random36 = js ''0.8fd02hw7c1a'',
           iso_now = js ''2023-11-14T22:19:20.000Z''\<rparr>"

definition world_fresh :: world where
  "world_fresh = \<lparr>disk = NoFile, fs_write_error = None, activeJobs = [], jobs = [],
                   posts = [], stderr = [], writes = []\<rparr>"

definition entry0 :: ScheduledTweet where
  "entry0 = \<lparr>tweet_id = js ''tweet_1700000000000_k3j9x2m1q'', tweet_text = js ''Daily update'',
             cronExpression = js ''0 9 * * *'', oneTime = False,
             createdAt = js ''2023-11-14T22:13:20.000Z'', lastPosted = None, postCount = 0\<rparr>"

definition world_added :: world where
  "world_added =
     snd (scheduleTweet isValidRecurrence sys0 (js ''  Daily update '') (js ''0 9 * * *'') False
            world_fresh)"

definition world_started :: world where
  "world_started = startScheduler world_added"

definition world_removed_elsewhere :: world where
  "world_removed_elsewhere =
     world_started\<lparr>disk :=
       disk (snd (removeScheduledTweet (tweet_id entry0)
                    (world_started\<lparr>activeJobs := [], jobs := []\<rparr>)))\<rparr>"

text \<open>A one-time entry, and the daemon started on a file that holds only that entry.\<close>

definition entry1 :: ScheduledTweet where
  "entry1 = \<lparr>tweet_id = js ''tweet_1700000360000_8fd02hw7c'', tweet_text = js ''Launch day'',
             cronExpression = js ''30 14 1 6 *'', oneTime = True,
             createdAt = js ''2023-11-14T22:19:20.000Z'', lastPosted = None, postCount = 0\<rparr>"

definition world_once :: world where
  "world_once =
     startScheduler (snd (scheduleTweet isValidRecurrence sys1 (js ''Launch day'')
                            (js ''30 14 1 6 *'') True world_fresh))"

text \<open>Two posting functions: one that always resolves, one that always rejects.\<close>

definition post_ok :: "jsstring \<Rightarrow> post_result" where
  "post_ok t = Resolved"

definition post_forbidden :: "jsstring \<Rightarrow> post_result" where
  "post_forbidden t = Rejected (js ''Forbidden'')"

text \<open>
  The daemon's state after the timer of the recurring entry has fired once, the post
  resolving, and the entry as it is stored then.
\<close>

definition world_fired_once :: world where
  "world_fired_once = tick post_ok (js ''2023-11-15T09:00:00.238Z'') 0 world_started"

definition entry0_fired :: ScheduledTweet where
  "entry0_fired = entry0\<lparr>lastPosted := Some (js ''2023-11-15T09:00:00.238Z''), postCount := 1\<rparr>"

section \<open>Auxiliary facts\<close>

lemma trim_Nil [simp]: "trim [] = []"
  by (simp add: trim_def)

lemma load_frame [simp]:
  "disk (snd (loadScheduledTweets w)) = disk w"
  "fs_write_error (snd (loadScheduledTweets w)) = fs_write_error w"
  "activeJobs (snd (loadScheduledTweets w)) = activeJobs w"
  "jobs (snd (loadScheduledTweets w)) = jobs w"
  "posts (snd (loadScheduledTweets w)) = posts w"
  "writes (snd (loadScheduledTweets w)) = writes w"
  by (simp_all add: loadScheduledTweets_def split: disk.splits option.splits)

lemma load_fst [simp]: "fst (loadScheduledTweets w) = stored w"
  by (simp add: stored_def)

lemma list_fst [simp]: "fst (listScheduledTweets w) = stored w"
  by (simp add: listScheduledTweets_def)

lemma stored_disk: "disk w = disk v \<Longrightarrow> stored w = stored v"
  by (simp add: stored_def loadScheduledTweets_def split: disk.splits option.splits)

lemma stored_after_load [simp]: "stored (snd (loadScheduledTweets w)) = stored w"
  by (rule stored_disk) simp

lemma save_ok:
  assumes "fs_write_error w = None"
  shows "disk (saveScheduledTweets ts w) = Json (Some ts)"
    and "stored (saveScheduledTweets ts w) = ts"
    and "writes (saveScheduledTweets ts w) = writes w @ [ts]"
  using assms by (simp_all add: saveScheduledTweets_def stored_def loadScheduledTweets_def)

lemma save_frame [simp]:
  "fs_write_error (saveScheduledTweets ts w) = fs_write_error w"
  "activeJobs (saveScheduledTweets ts w) = activeJobs w"
  "jobs (saveScheduledTweets ts w) = jobs w"
  "posts (saveScheduledTweets ts w) = posts w"
  by (simp_all add: saveScheduledTweets_def split: option.splits)

lemma findIndex_None_iff: "findIndex P xs = None \<longleftrightarrow> (\<forall>x\<in>set xs. \<not> P x)"
  by (induction xs) auto

lemma findIndex_Some_iff_ex: "(\<exists>i. findIndex P xs = Some i) \<longleftrightarrow> (\<exists>x\<in>set xs. P x)"
  using findIndex_None_iff [of P xs] by (cases "findIndex P xs") auto

lemma filter_other_id:
  "k \<notin> f ` set xs \<Longrightarrow> filter (\<lambda>t. f t \<noteq> k) xs = xs"
  by (induction xs) auto

lemma map_other_id:
  "k \<notin> f ` set xs \<Longrightarrow> map (\<lambda>t. if f t = k then g t else t) xs = xs"
  by (induction xs) auto

lemma splice1_Cons_Suc: "splice1 (Suc i) (x # xs) = x # splice1 i xs"
  by (simp add: splice1_def)

lemma splice1_distinct:
  "distinct (map f xs) \<Longrightarrow> findIndex (\<lambda>t. f t = k) xs = Some i
     \<Longrightarrow> splice1 i xs = filter (\<lambda>t. f t \<noteq> k) xs"
proof (induction xs arbitrary: i)
  case Nil
  then show ?case by simp
next
  case (Cons x xs)
  show ?case
  proof (cases "f x = k")
    case True
    with Cons.prems have "i = 0" and "k \<notin> f ` set xs" by auto
    with True show ?thesis by (simp add: splice1_def filter_other_id)
  next
    case False
    with Cons.prems obtain j where j: "i = Suc j" "findIndex (\<lambda>t. f t = k) xs = Some j"
      by auto
    with Cons.IH [of j] Cons.prems(1) False show ?thesis
      by (simp add: splice1_Cons_Suc)
  qed
qed

lemma update_distinct:
  "distinct (map f xs) \<Longrightarrow> findIndex (\<lambda>t. f t = k) xs = Some i
     \<Longrightarrow> xs[i := g (xs ! i)] = map (\<lambda>t. if f t = k then g t else t) xs"
proof (induction xs arbitrary: i)
  case Nil
  then show ?case by simp
next
  case (Cons x xs)
  show ?case
  proof (cases "f x = k")
    case True
    with Cons.prems have "i = 0" and "k \<notin> f ` set xs" by auto
    with True show ?thesis by (simp add: map_other_id)
  next
    case False
    with Cons.prems obtain j where j: "i = Suc j" "findIndex (\<lambda>t. f t = k) xs = Some j"
      by auto
    with Cons.IH [of j] Cons.prems(1) False show ?thesis by simp
  qed
qed

lemma splice1_update: "splice1 i (xs[i := y]) = splice1 i xs"
  by (simp add: splice1_def)

lemma stop_running: "h < length tasks \<Longrightarrow> \<not> running (stop h tasks ! h)"
  by (simp add: stop_def)

lemma length_stop [simp]: "length (stop h tasks) = length tasks"
  by (simp add: stop_def)

lemma map_of_delete_self [simp]: "map_of (AList.delete k al) k = None"
  by (simp add: delete_conv')

lemma logger_error_frame [simp]:
  "disk (logger_error m w) = disk w"
  "fs_write_error (logger_error m w) = fs_write_error w"
  "activeJobs (logger_error m w) = activeJobs w"
  "jobs (logger_error m w) = jobs w"
  "posts (logger_error m w) = posts w"
  "writes (logger_error m w) = writes w"
  "stderr (logger_error m w) = stderr w @ [[0x2717, 0x20] @ m]"
  by (simp_all add: logger_error_def)

subsection \<open>The continuation of a firing on a stored entry\<close>

lemma stored_posts_update [simp]: "stored (w\<lparr>posts := p\<rparr>) = stored w"
  by (rule stored_disk) simp

lemma stored_jobs_update [simp]: "stored (w\<lparr>jobs := j\<rparr>) = stored w"
  by (rule stored_disk) simp

lemma stored_activeJobs_update [simp]: "stored (w\<lparr>activeJobs := a\<rparr>) = stored w"
  by (rule stored_disk) simp

lemma or_zero [simp]: "(if n = 0 then 0 else n) = (n::nat)"
  by simp

lemma stored_id_unique:
  assumes "distinct (map tweet_id xs)" and "e \<in> set xs" and "t \<in> set xs"
    and "tweet_id t = tweet_id e"
  shows "t = e"
  using assms by (meson distinct_map inj_onD)

lemma after_post_one_time:
  assumes "e \<in> set (stored w)" and "tweet_id tw = tweet_id e" and "oneTime tw"
    and "distinct (map tweet_id (stored w))" and "fs_write_error w = None"
  shows "stored (after_post tw now h w) = filter (\<lambda>t. tweet_id t \<noteq> tweet_id e) (stored w)"
    and "writes (after_post tw now h w)
           = writes w @ [filter (\<lambda>t. tweet_id t \<noteq> tweet_id e) (stored w)]"
    and "jobs (after_post tw now h w) = stop h (jobs w)"
    and "activeJobs (after_post tw now h w) = AList.delete (tweet_id e) (activeJobs w)"
proof -
  from assms(1) obtain i where i: "findIndex (\<lambda>t. tweet_id t = tweet_id e) (stored w) = Some i"
    using findIndex_Some_iff_ex [of "\<lambda>t. tweet_id t = tweet_id e" "stored w"] by auto
  let ?w1 = "snd (loadScheduledTweets w)"
  let ?w2 = "?w1\<lparr>jobs := stop h (jobs ?w1),
                    activeJobs := AList.delete (tweet_id e) (activeJobs ?w1)\<rparr>"
  let ?doc = "filter (\<lambda>t. tweet_id t \<noteq> tweet_id e) (stored w)"
  have a: "after_post tw now h w = saveScheduledTweets ?doc ?w2"
    using i assms(2,3) splice1_distinct [OF assms(4) i]
    by (simp add: after_post_def split_beta Let_def splice1_update)
  show "stored (after_post tw now h w) = ?doc"
    using assms(5) by (simp add: a save_ok)
  show "writes (after_post tw now h w) = writes w @ [?doc]"
    using assms(5) by (simp add: a save_ok)
  show "jobs (after_post tw now h w) = stop h (jobs w)"
    by (simp add: a)
  show "activeJobs (after_post tw now h w) = AList.delete (tweet_id e) (activeJobs w)"
    by (simp add: a)
qed

lemma after_post_recurring:
  assumes "e \<in> set (stored w)" and "tweet_id tw = tweet_id e" and "\<not> oneTime tw"
    and "distinct (map tweet_id (stored w))" and "fs_write_error w = None"
  shows "stored (after_post tw now h w)
           = map (\<lambda>t. if tweet_id t = tweet_id e
                       then t\<lparr>lastPosted := Some now, postCount := postCount t + 1\<rparr> else t)
               (stored w)"
    and "jobs (after_post tw now h w) = jobs w"
    and "activeJobs (after_post tw now h w) = activeJobs w"
    and "fs_write_error (after_post tw now h w) = None"
proof -
  from assms(1) obtain i where i: "findIndex (\<lambda>t. tweet_id t = tweet_id e) (stored w) = Some i"
    using findIndex_Some_iff_ex [of "\<lambda>t. tweet_id t = tweet_id e" "stored w"] by auto
  let ?w1 = "snd (loadScheduledTweets w)"
  let ?g = "\<lambda>t. t\<lparr>lastPosted := Some now, postCount := postCount t + 1\<rparr>"
  let ?doc = "map (\<lambda>t. if tweet_id t = tweet_id e then ?g t else t) (stored w)"
  have a: "after_post tw now h w = saveScheduledTweets ?doc ?w1"
    using i assms(2,3) update_distinct [OF assms(4) i, of ?g]
    by (simp add: after_post_def split_beta Let_def)
  show "stored (after_post tw now h w) = ?doc"
    using assms(5) by (simp add: a save_ok)
  show "jobs (after_post tw now h w) = jobs w"
    by (simp add: a)
  show "activeJobs (after_post tw now h w) = activeJobs w"
    by (simp add: a)
  show "fs_write_error (after_post tw now h w) = None"
    using assms(5) by (simp add: a)
qed

lemma tick_resolved:
  assumes "h < length (jobs w)" and "running (jobs w ! h)"
    and "postTweetFn (tweet_text (captured (jobs w ! h))) = Resolved"
  shows "tick postTweetFn now h w
           = after_post (captured (jobs w ! h)) now h
               (w\<lparr>posts := posts w @ [tweet_text (captured (jobs w ! h))]\<rparr>)"
  using assms by (simp add: tick_def callback_def Let_def)

lemma tick_recurring_step:
  assumes "live_timer w h e" and "e \<in> set (stored w)" and "\<not> oneTime e"
    and "distinct (map tweet_id (stored w))" and "fs_write_error w = None"
    and "postTweetFn (tweet_text (captured (jobs w ! h))) = Resolved"
  shows "stored (tick postTweetFn now h w)
           = map (\<lambda>t. if tweet_id t = tweet_id e
                       then t\<lparr>lastPosted := Some now, postCount := postCount t + 1\<rparr> else t)
               (stored w)"
    and "jobs (tick postTweetFn now h w) = jobs w"
    and "activeJobs (tick postTweetFn now h w) = activeJobs w"
    and "fs_write_error (tick postTweetFn now h w) = None"
proof -
  let ?tw = "captured (jobs w ! h)"
  let ?w1 = "w\<lparr>posts := posts w @ [tweet_text ?tw]\<rparr>"
  from assms(1) have l: "h < length (jobs w)" "running (jobs w ! h)"
    "tweet_id ?tw = tweet_id e" "oneTime ?tw = oneTime e"
    by (simp_all add: live_timer_def)
  have t: "tick postTweetFn now h w = after_post ?tw now h ?w1"
    by (rule tick_resolved [where postTweetFn = postTweetFn, OF l(1,2) assms(6)])
  have p: "e \<in> set (stored ?w1)" "\<not> oneTime ?tw" "distinct (map tweet_id (stored ?w1))"
    "fs_write_error ?w1 = None"
    using assms(2-5) l(4) by simp_all
  show "stored (tick postTweetFn now h w)
           = map (\<lambda>t. if tweet_id t = tweet_id e
                       then t\<lparr>lastPosted := Some now, postCount := postCount t + 1\<rparr> else t)
               (stored w)"
    using after_post_recurring(1) [OF p(1) l(3) p(2,3,4), of now h] by (simp add: t)
  show "jobs (tick postTweetFn now h w) = jobs w"
    using after_post_recurring(2) [OF p(1) l(3) p(2,3,4), of now h] by (simp add: t)
  show "activeJobs (tick postTweetFn now h w) = activeJobs w"
    using after_post_recurring(3) [OF p(1) l(3) p(2,3,4), of now h] by (simp add: t)
  show "fs_write_error (tick postTweetFn now h w) = None"
    using after_post_recurring(4) [OF p(1) l(3) p(2,3,4), of now h] by (simp add: t)
qed

subsection \<open>Starting the daemon, removing an entry\<close>

lemma jobs_register_all:
  "jobs (foldl (\<lambda>v tweet. register tweet v) w ts)
     = jobs w @ map (\<lambda>t. \<lparr>captured = t, running = True\<rparr>) ts"
  by (induction ts arbitrary: w) (simp_all add: register_def)

lemma jobs_startScheduler:
  "jobs (startScheduler w) = jobs w @ map (\<lambda>t. \<lparr>captured = t, running = True\<rparr>) (stored w)"
  by (simp add: startScheduler_def split_beta jobs_register_all)



lemma trim_padded:
  assumes "\<not> isWhiteSpace a" and "isWhiteSpace b"
  shows "trim (a # replicate n b) = [a]"
proof -
  have "dropWhile isWhiteSpace (replicate n b @ [a]) = [a]"
    using assms by (induction n) simp_all
  then show ?thesis
    using assms by (simp add: trim_def)
qed

subsection \<open>The example states, evaluated\<close>

lemma valid_daily: "isValidRecurrence (js ''0 9 * * *'')"
  by code_simp

lemma valid_five: "isValidRecurrence (js ''*/5 * * * *'')"
  by code_simp

lemma trim_daily: "trim (js ''  Daily update '') = js ''Daily update''"
  by code_simp

lemma id_sys0: "generateId sys0 = js ''tweet_1700000000000_k3j9x2m1q''"
  by (simp add: generateId_def sys0_def js_def)

lemma id_sys1: "generateId sys1 = js ''tweet_1700000360000_8fd02hw7c''"
  by (simp add: generateId_def sys1_def js_def)

lemma world_added_eq:
  "world_added = \<lparr>disk = Json (Some [entry0]), fs_write_error = None, activeJobs = [], jobs = [],
                   posts = [], stderr = [], writes = [[entry0]]\<rparr>"
proof -
  have "iso_now sys0 = js ''2023-11-14T22:13:20.000Z''" by (simp add: sys0_def)
  moreover have "js ''  Daily update '' \<noteq> []" "js ''Daily update'' \<noteq> []"
    "length (js ''  Daily update '') \<le> 280" by (simp_all add: js_def)
  ultimately show ?thesis
    by (simp add: world_added_def scheduleTweet_def valid_daily trim_daily id_sys0 world_fresh_def
      loadScheduledTweets_def saveScheduledTweets_def entry0_def Let_def)
qed

lemma world_started_eq:
  "world_started = \<lparr>disk = Json (Some [entry0]), fs_write_error = None,
     activeJobs = [(tweet_id entry0, 0)], jobs = [\<lparr>captured = entry0, running = True\<rparr>],
     posts = [], stderr = [], writes = [[entry0]]\<rparr>"
  by (simp add: world_started_def world_added_eq startScheduler_def loadScheduledTweets_def
      register_def)

lemma world_removed_elsewhere_eq:
  "world_removed_elsewhere = \<lparr>disk = Json (Some []), fs_write_error = None,
     activeJobs = [(tweet_id entry0, 0)], jobs = [\<lparr>captured = entry0, running = True\<rparr>],
     posts = [], stderr = [], writes = [[entry0]]\<rparr>"
  by (simp add: world_removed_elsewhere_def world_started_eq removeScheduledTweet_def
      loadScheduledTweets_def saveScheduledTweets_def splice1_def)

lemma world_once_eq:
  "world_once = \<lparr>disk = Json (Some [entry1]), fs_write_error = None,
     activeJobs = [(tweet_id entry1, 0)], jobs = [\<lparr>captured = entry1, running = True\<rparr>],
     posts = [], stderr = [], writes = [[entry1]]\<rparr>"
proof -
  have v: "isValidRecurrence (js ''30 14 1 6 *'')" by code_simp
  have t: "trim (js ''Launch day'') = js ''Launch day''" by code_simp
  have i: "iso_now sys1 = js ''2023-11-14T22:19:20.000Z''" by (simp add: sys1_def)
  have n: "js ''Launch day'' \<noteq> []" "length (js ''Launch day'') \<le> 280"
    by (simp_all add: js_def)
  have "snd (scheduleTweet isValidRecurrence sys1 (js ''Launch day'') (js ''30 14 1 6 *'') True
               world_fresh)
          = \<lparr>disk = Json (Some [entry1]), fs_write_error = None, activeJobs = [], jobs = [],
              posts = [], stderr = [], writes = [[entry1]]\<rparr>"
    using n by (simp add: scheduleTweet_def v t i id_sys1 world_fresh_def
        loadScheduledTweets_def saveScheduledTweets_def entry1_def Let_def)
  then show ?thesis
    by (simp add: world_once_def startScheduler_def loadScheduledTweets_def register_def)
qed

lemma post_ok_simp [simp]: "post_ok t = Resolved"
  by (simp add: post_ok_def)

lemma post_forbidden_simp [simp]: "post_forbidden t = Rejected (js ''Forbidden'')"
  by (simp add: post_forbidden_def)

lemma world_fired_once_eq:
  "world_fired_once = \<lparr>disk = Json (Some [entry0_fired]), fs_write_error = None,
     activeJobs = [(tweet_id entry0, 0)], jobs = [\<lparr>captured = entry0, running = True\<rparr>],
     posts = [tweet_text entry0], stderr = [], writes = [[entry0], [entry0_fired]]\<rparr>"
proof -
  have "\<not> oneTime entry0" "postCount entry0 = 0" by (simp_all add: entry0_def)
  then show ?thesis
    by (simp add: world_fired_once_def world_started_eq tick_def callback_def after_post_def
        loadScheduledTweets_def saveScheduledTweets_def entry0_fired_def Let_def)
qed

section \<open>Adding an entry\<close>

text \<open>
  Claim C6. For a text that is non-empty after trimming and has at most 280 code units,
  and an expression the validator accepts, \<open>scheduleTweet\<close> returns an entry with
  \<open>lastPosted\<close> null and \<open>postCount\<close> 0; when the file can be written, loading
  afterwards returns the previous entries followed by that entry, and saving a
  collection ending in the entry and loading it again gives the same collection back.
\<close>

theorem scheduleTweet_valid:
  assumes "validate expr" and "trim txt \<noteq> []" and "length txt \<le> 280"
    and "fs_write_error w = None"
  shows "\<exists>t. fst (scheduleTweet validate s txt expr once w) = Inr t
           \<and> tweet_text t = trim txt \<and> cronExpression t = expr \<and> oneTime t = once
           \<and> lastPosted t = None \<and> postCount t = 0
           \<and> stored (snd (scheduleTweet validate s txt expr once w)) = stored w @ [t]
           \<and> stored (saveScheduledTweets (stored w @ [t]) w) = stored w @ [t]"
  using assms by (auto simp add: scheduleTweet_def Let_def split_beta save_ok)

theorem scheduleTweet_valid_witness:
  "isValidRecurrence (js ''0 9 * * *'') \<and> trim (js ''  Daily update '') \<noteq> []
   \<and> length (js ''  Daily update '') \<le> 280 \<and> fs_write_error world_fresh = None
   \<and> (\<exists>t. fst (scheduleTweet isValidRecurrence sys0 (js ''  Daily update '') (js ''0 9 * * *'') False
                  world_fresh) = Inr t
         \<and> tweet_text t = trim (js ''  Daily update '') \<and> cronExpression t = js ''0 9 * * *''
         \<and> oneTime t = False \<and> lastPosted t = None \<and> postCount t = 0
         \<and> stored (snd (scheduleTweet isValidRecurrence sys0 (js ''  Daily update '')
                          (js ''0 9 * * *'') False world_fresh)) = stored world_fresh @ [t]
         \<and> stored (saveScheduledTweets (stored world_fresh @ [t]) world_fresh)
             = stored world_fresh @ [t])"
proof -
  have h2: "trim (js ''  Daily update '') \<noteq> []" by code_simp
  have h3: "length (js ''  Daily update '') \<le> 280" by (simp add: js_def)
  have h4: "fs_write_error world_fresh = None" by (simp add: world_fresh_def)
  show ?thesis
    using valid_daily h2 h3 h4
      scheduleTweet_valid [of isValidRecurrence "js ''0 9 * * *''" "js ''  Daily update ''"
        world_fresh sys0 False, OF valid_daily h2 h3 h4]
    by blast
qed

text \<open>
  Claim C7. A text that is empty after trimming, or has 281 or more code units, makes
  \<open>scheduleTweet\<close> throw an \<open>Error\<close> (the one for the recurrence expression when that
  is invalid too, since it is checked first); the state is exactly the one before the
  call, so nothing is persisted and loading returns what it returned before.
\<close>

theorem scheduleTweet_bad_text:
  assumes "trim txt = [] \<or> 281 \<le> length txt"
  shows "fst (scheduleTweet validate s txt expr once w)
           = Inl (Error (if \<not> validate expr then js ''Invalid cron expression: '' @ expr
                         else if trim txt = [] then js ''Tweet text cannot be empty''
                         else js ''Tweet exceeds 280 characters ('' @ decimal (length txt)
                                @ js '' chars)''))
         \<and> snd (scheduleTweet validate s txt expr once w) = w
         \<and> stored (snd (scheduleTweet validate s txt expr once w)) = stored w
         \<and> writes (snd (scheduleTweet validate s txt expr once w)) = writes w"
  using assms by (auto simp add: scheduleTweet_def)

theorem scheduleTweet_bad_text_witness:
  "trim (js ''   '') = []
   \<and> fst (scheduleTweet isValidRecurrence sys1 (js ''   '') (js ''0 9 * * *'') False world_added)
        = Inl (Error (js ''Tweet text cannot be empty''))
   \<and> snd (scheduleTweet isValidRecurrence sys1 (js ''   '') (js ''0 9 * * *'') False world_added)
        = world_added
   \<and> 281 \<le> length (replicate 281 (0x61 :: jschar))
   \<and> fst (scheduleTweet isValidRecurrence sys1 (replicate 281 0x61) (js ''0 9 * * *'') False world_added)
        = Inl (Error (js ''Tweet exceeds 280 characters (281 chars)''))
   \<and> stored (snd (scheduleTweet isValidRecurrence sys1 (replicate 281 0x61) (js ''0 9 * * *'') False
                    world_added)) = stored world_added"
proof -
  have h1: "trim (js ''   '') = []" by code_simp
  have h2: "281 \<le> length (replicate 281 (0x61 :: jschar))" by simp
  have "\<not> isWhiteSpace 0x61" by (simp add: isWhiteSpace_def)
  then have t2: "trim (replicate 281 (0x61 :: jschar)) \<noteq> []"
    by (simp add: trim_def dropWhile_replicate)
  have d: "js ''Tweet exceeds 280 characters ('' @ decimal (length (replicate 281 (0x61 :: jschar)))
             @ js '' chars)'' = js ''Tweet exceeds 280 characters (281 chars)''"
    by (simp add: js_def)
  show ?thesis
    using scheduleTweet_bad_text [of "js ''   ''" isValidRecurrence sys1 "js ''0 9 * * *''" False world_added]
      scheduleTweet_bad_text [of "replicate 281 0x61" isValidRecurrence sys1 "js ''0 9 * * *''" False world_added]
      valid_daily h1 h2 t2 d
    by simp
qed

text \<open>
  Claim C8. Whenever the validator rejects the recurrence expression, \<open>scheduleTweet\<close>
  throws an \<open>Error\<close> whose message quotes the expression, and the state is exactly the
  one before the call: nothing is written, and loading returns what it returned before.
\<close>

theorem scheduleTweet_invalid_cron:
  assumes "\<not> validate expr"
  shows "fst (scheduleTweet validate s txt expr once w)
           = Inl (Error (js ''Invalid cron expression: '' @ expr))
         \<and> snd (scheduleTweet validate s txt expr once w) = w
         \<and> stored (snd (scheduleTweet validate s txt expr once w)) = stored w
         \<and> writes (snd (scheduleTweet validate s txt expr once w)) = writes w"
  using assms by (simp add: scheduleTweet_def)

theorem scheduleTweet_invalid_cron_witness:
  "\<not> isValidRecurrence (js ''99 * * * *'')
   \<and> fst (scheduleTweet isValidRecurrence sys0 (js ''Daily update'') (js ''99 * * * *'') False world_added)
           = Inl (Error (js ''Invalid cron expression: '' @ js ''99 * * * *''))
   \<and> snd (scheduleTweet isValidRecurrence sys0 (js ''Daily update'') (js ''99 * * * *'') False world_added) = world_added
   \<and> stored (snd (scheduleTweet isValidRecurrence sys0 (js ''Daily update'') (js ''99 * * * *'') False world_added)) = stored world_added
   \<and> writes (snd (scheduleTweet isValidRecurrence sys0 (js ''Daily update'') (js ''99 * * * *'') False world_added)) = writes world_added
   \<and> \<not> isValidRecurrence (js ''* * *'')
   \<and> snd (scheduleTweet isValidRecurrence sys0 (js ''Daily update'') (js ''* * *'') False world_added) = world_added"
proof -
  have h1: "\<not> isValidRecurrence (js ''99 * * * *'')" by code_simp
  have h2: "\<not> isValidRecurrence (js ''* * *'')" by code_simp
  show ?thesis
    using h1 h2 scheduleTweet_invalid_cron [of isValidRecurrence, OF h1]
      scheduleTweet_invalid_cron [of isValidRecurrence, OF h2]
    by blast
qed

text \<open>
  Claim C10. The entry \<open>scheduleTweet\<close> returns (and, the file being writable,
  appends to the stored collection) carries the trimmed text, while the limit of 280 is
  checked on the text as given: every text longer than 280 code units is refused. So
  the letter \<open>a\<close> followed by 280 spaces, whose trimmed text has length 1, is refused
  for exceeding 280 characters.
\<close>

theorem scheduleTweet_trims_after_length_check:
  assumes "validate expr" and "fs_write_error w = None"
    and "scheduleTweet validate s txt expr once w = (Inr t, w')"
  shows "tweet_text t = trim txt \<and> length txt \<le> 280
         \<and> stored w' = stored w @ [t]
         \<and> length (trim (0x61 # replicate 280 0x20)) \<le> 280
         \<and> trim (0x61 # replicate 280 0x20) \<noteq> []
         \<and> fst (scheduleTweet validate s (0x61 # replicate 280 0x20) expr once w)
             = Inl (Error (js ''Tweet exceeds 280 characters (281 chars)''))"
proof -
  have ws: "\<not> isWhiteSpace 0x61" "isWhiteSpace 0x20" by (simp_all add: isWhiteSpace_def)
  have tr: "trim (0x61 # replicate 280 0x20) = [0x61]" by (rule trim_padded [OF ws])
  have big: "fst (scheduleTweet validate s (0x61 # replicate 280 0x20) expr once w)
               = Inl (Error (js ''Tweet exceeds 280 characters (281 chars)''))"
    using assms(1) by (simp add: scheduleTweet_def tr js_def)
  have ok: "tweet_text t = trim txt \<and> length txt \<le> 280 \<and> stored w' = stored w @ [t]"
    using assms(2,3)
    by (auto simp add: scheduleTweet_def Let_def split_beta save_ok split: if_splits)
  show ?thesis using ok big by (simp add: tr)
qed

theorem scheduleTweet_trims_after_length_check_witness:
  "isValidRecurrence (js ''0 9 * * *'') \<and> fs_write_error world_fresh = None
   \<and> scheduleTweet isValidRecurrence sys0 (js ''  Daily update '') (js ''0 9 * * *'') False
        world_fresh = (Inr entry0, world_added)
   \<and> tweet_text entry0 = trim (js ''  Daily update '')
   \<and> tweet_text entry0 = js ''Daily update''
   \<and> stored world_added = stored world_fresh @ [entry0]
   \<and> fst (scheduleTweet isValidRecurrence sys0 (0x61 # replicate 280 0x20) (js ''0 9 * * *'')
            False world_fresh)
       = Inl (Error (js ''Tweet exceeds 280 characters (281 chars)''))"
proof -
  have h2: "fs_write_error world_fresh = None" by (simp add: world_fresh_def)
  have n: "js ''  Daily update '' \<noteq> []" "js ''Daily update'' \<noteq> []"
    "length (js ''  Daily update '') \<le> 280" by (simp_all add: js_def)
  have i: "iso_now sys0 = js ''2023-11-14T22:13:20.000Z''" by (simp add: sys0_def)
  have "fst (scheduleTweet isValidRecurrence sys0 (js ''  Daily update '') (js ''0 9 * * *'') False
               world_fresh) = Inr entry0"
    using n by (simp add: scheduleTweet_def valid_daily trim_daily id_sys0 i entry0_def Let_def
        split_beta)
  then have h3: "scheduleTweet isValidRecurrence sys0 (js ''  Daily update '') (js ''0 9 * * *'')
                   False world_fresh = (Inr entry0, world_added)"
    by (simp add: world_added_def prod_eq_iff)
  have e: "tweet_text entry0 = js ''Daily update''" by (simp add: entry0_def)
  show ?thesis
    using valid_daily h2 h3 e
      scheduleTweet_trims_after_length_check [where validate = isValidRecurrence,
        OF valid_daily h2 h3]
    by simp
qed

text \<open>
  The claim C2 as stated fails: with the daemon running (one live timer, for the first
  entry), a successful \<open>scheduleTweet\<close> leaves the registry without an entry for
  the new id, and creates no task.
\<close>

theorem scheduleTweet_running_counterexample:
  "live_timer world_started 0 entry0
   \<and> fst (scheduleTweet isValidRecurrence sys1 (js ''Second post'') (js ''*/5 * * * *'') False
            world_started)
       = Inr \<lparr>tweet_id = js ''tweet_1700000360000_8fd02hw7c'', tweet_text = js ''Second post'',
               cronExpression = js ''*/5 * * * *'', oneTime = False,
               createdAt = js ''2023-11-14T22:19:20.000Z'', lastPosted = None, postCount = 0\<rparr>
   \<and> map_of (activeJobs (snd (scheduleTweet isValidRecurrence sys1 (js ''Second post'')
                (js ''*/5 * * * *'') False world_started))) (js ''tweet_1700000360000_8fd02hw7c'')
       = None
   \<and> jobs (snd (scheduleTweet isValidRecurrence sys1 (js ''Second post'')
                (js ''*/5 * * * *'') False world_started))
       = [\<lparr>captured = entry0, running = True\<rparr>]"
proof -
  have t: "trim (js ''Second post'') = js ''Second post''" by code_simp
  have n: "js ''Second post'' \<noteq> []" "length (js ''Second post'') \<le> 280"
    by (simp_all add: js_def)
  have i: "iso_now sys1 = js ''2023-11-14T22:19:20.000Z''" by (simp add: sys1_def)
  have k: "js ''tweet_1700000360000_8fd02hw7c'' \<noteq> tweet_id entry0"
    by (simp add: entry0_def js_def)
  have r: "scheduleTweet isValidRecurrence sys1 (js ''Second post'') (js ''*/5 * * * *'') False
             world_started
           = (Inr \<lparr>tweet_id = js ''tweet_1700000360000_8fd02hw7c'', tweet_text = js ''Second post'',
                    cronExpression = js ''*/5 * * * *'', oneTime = False,
                    createdAt = js ''2023-11-14T22:19:20.000Z'', lastPosted = None, postCount = 0\<rparr>,
              saveScheduledTweets
                [entry0, \<lparr>tweet_id = js ''tweet_1700000360000_8fd02hw7c'',
                   tweet_text = js ''Second post'', cronExpression = js ''*/5 * * * *'',
                   oneTime = False, createdAt = js ''2023-11-14T22:19:20.000Z'',
                   lastPosted = None, postCount = 0\<rparr>] world_started)"
    using n by (simp add: scheduleTweet_def valid_five t i id_sys1 Let_def split_beta)
      (simp add: world_started_eq loadScheduledTweets_def stored_def)
  have l: "live_timer world_started 0 entry0"
    by (simp add: live_timer_def world_started_eq)
  show ?thesis
    using k by (simp add: r l) (simp add: world_started_eq)
qed

text \<open>
  Claim C2, amended. \<open>scheduleTweet\<close> never creates or registers a timer, whether or
  not the daemon is running: the registry and the set of tasks after the call are those
  before it, for every input and every state.
\<close>

theorem scheduleTweet_registers_nothing:
  "activeJobs (snd (scheduleTweet validate s txt expr once w)) = activeJobs w
   \<and> jobs (snd (scheduleTweet validate s txt expr once w)) = jobs w"
  by (simp add: scheduleTweet_def Let_def split_beta)

section \<open>Firing\<close>

text \<open>
  The claim C1 as stated fails. The daemon runs with one live timer, for the entry
  \<open>Daily update\<close>; a second process removes the entry from the file; when the timer
  fires, the file holds no entry with that id, and the callback passes the text it
  closed over to the posting function all the same.
\<close>

theorem tick_stale_text_counterexample:
  "live_timer world_removed_elsewhere 0 entry0
   \<and> stored world_removed_elsewhere = []
   \<and> posts (tick post_ok (iso_now sys1) 0 world_removed_elsewhere) = [js ''Daily update'']"
proof -
  have "tick post_ok (iso_now sys1) 0 world_removed_elsewhere
          = world_removed_elsewhere\<lparr>posts := [js ''Daily update'']\<rparr>"
    by (simp add: tick_def callback_def after_post_def world_removed_elsewhere_eq
        loadScheduledTweets_def entry0_def)
  then show ?thesis
    by (simp add: live_timer_def stored_def loadScheduledTweets_def world_removed_elsewhere_eq)
qed

text \<open>
  Claim C1, amended. At every firing of a live timer, the text passed to the posting
  function is the text of the entry the task's callback closed over, whatever the
  schedule file holds at that time; and the entries the callbacks close over are the
  entries \<open>startScheduler\<close> loaded when it created the tasks. The file is read only
  in the continuation after the posting function resolved: when the function rejects,
  the only line printed is the one for the failed post, even if the file is unreadable.
\<close>

theorem tick_posts_captured_text:
  assumes "h < length (jobs w)" and "running (jobs w ! h)"
  shows "posts (tick postTweetFn now h (w\<lparr>disk := d\<rparr>))
           = posts w @ [tweet_text (captured (jobs w ! h))]
         \<and> (\<forall>msg. postTweetFn (tweet_text (captured (jobs w ! h))) = Rejected msg
               \<longrightarrow> stderr (tick postTweetFn now h (w\<lparr>disk := d\<rparr>))
                     = stderr w @ [[0x2717, 0x20] @ js ''Failed to post scheduled tweet ''
                                    @ tweet_id (captured (jobs w ! h)) @ js '': '' @ msg])
         \<and> jobs (startScheduler w)
             = jobs w @ map (\<lambda>t. \<lparr>captured = t, running = True\<rparr>) (stored w)"
proof -
  have "posts (after_post tw now h v) = posts v" for tw v
    by (simp add: after_post_def split_beta Let_def split: option.splits)
  then have "posts (tick postTweetFn now h (w\<lparr>disk := d\<rparr>))
               = posts w @ [tweet_text (captured (jobs w ! h))]"
    using assms by (simp add: tick_def callback_def Let_def split: post_result.splits)
  moreover have "stderr (tick postTweetFn now h (w\<lparr>disk := d\<rparr>))
                   = stderr w @ [[0x2717, 0x20] @ js ''Failed to post scheduled tweet ''
                                  @ tweet_id (captured (jobs w ! h)) @ js '': '' @ msg]"
    if "postTweetFn (tweet_text (captured (jobs w ! h))) = Rejected msg" for msg
    using assms that by (simp add: tick_def callback_def Let_def)
  ultimately show ?thesis by (simp add: jobs_startScheduler)
qed

theorem tick_posts_captured_text_witness:
  "0 < length (jobs world_started) \<and> running (jobs world_started ! 0)
   \<and> posts (tick post_ok (iso_now sys1) 0 (world_started\<lparr>disk := Json (Some [])\<rparr>))
       = [js ''Daily update'']
   \<and> stderr (tick post_forbidden (iso_now sys1) 0
               (world_started\<lparr>disk := Unreadable (js ''Unexpected end of JSON input'')\<rparr>))
       = [[0x2717, 0x20] @ js ''Failed to post scheduled tweet '' @ tweet_id entry0
            @ js '': '' @ js ''Forbidden'']
   \<and> jobs (startScheduler world_started)
       = [\<lparr>captured = entry0, running = True\<rparr>, \<lparr>captured = entry0, running = True\<rparr>]"
proof -
  have h1: "0 < length (jobs world_started)" by (simp add: world_started_eq)
  have h2: "running (jobs world_started ! 0)" by (simp add: world_started_eq)
  have s: "stored world_started = [entry0]" "posts world_started = []"
    "stderr world_started = []"
    "jobs world_started = [\<lparr>captured = entry0, running = True\<rparr>]"
    "tweet_text entry0 = js ''Daily update''"
    by (simp_all add: world_started_eq stored_def loadScheduledTweets_def entry0_def)
  show ?thesis
    using h1 h2
      tick_posts_captured_text [where postTweetFn = post_ok and now = "iso_now sys1"
        and d = "Json (Some [])", OF h1 h2]
      tick_posts_captured_text [where postTweetFn = post_forbidden and now = "iso_now sys1"
        and d = "Unreadable (js ''Unexpected end of JSON input'')", OF h1 h2]
    by (simp add: s)
qed

text \<open>
  Claim C3. Let a live timer of a stored one-time entry fire, with the posting function
  resolving and the file writable (ids in the file being unique). Afterwards loading
  returns the previous entries without that entry, the task is stopped and the id is no
  longer in the registry; the single document the firing writes is the collection
  without the entry, so no persisted state shows it with an incremented count.
\<close>

theorem tick_one_time:
  assumes "live_timer w h e" and "e \<in> set (stored w)" and "oneTime e"
    and "distinct (map tweet_id (stored w))" and "fs_write_error w = None"
    and "postTweetFn (tweet_text (captured (jobs w ! h))) = Resolved"
  shows "stored (tick postTweetFn now h w) = filter (\<lambda>t. tweet_id t \<noteq> tweet_id e) (stored w)
         \<and> e \<notin> set (fst (listScheduledTweets (tick postTweetFn now h w)))
         \<and> tweet_id e \<notin> tweet_id ` set (stored (tick postTweetFn now h w))
         \<and> \<not> running (jobs (tick postTweetFn now h w) ! h)
         \<and> map_of (activeJobs (tick postTweetFn now h w)) (tweet_id e) = None
         \<and> writes (tick postTweetFn now h w)
             = writes w @ [filter (\<lambda>t. tweet_id t \<noteq> tweet_id e) (stored w)]"
proof -
  let ?tw = "captured (jobs w ! h)"
  let ?w1 = "w\<lparr>posts := posts w @ [tweet_text ?tw]\<rparr>"
  from assms(1) have l: "h < length (jobs w)" "running (jobs w ! h)"
    "tweet_id ?tw = tweet_id e" "oneTime ?tw = oneTime e"
    by (simp_all add: live_timer_def)
  have t: "tick postTweetFn now h w = after_post ?tw now h ?w1"
    by (rule tick_resolved [where postTweetFn = postTweetFn, OF l(1,2) assms(6)])
  have p: "e \<in> set (stored ?w1)" "oneTime ?tw" "distinct (map tweet_id (stored ?w1))"
    "fs_write_error ?w1 = None"
    using assms(2-5) l(4) by simp_all
  note a = after_post_one_time [OF p(1) l(3) p(2,3,4), of now h]
  have s: "stored (tick postTweetFn now h w) = filter (\<lambda>t. tweet_id t \<noteq> tweet_id e) (stored w)"
    using a(1) by (simp add: t)
  have "tweet_id e \<notin> tweet_id ` set (stored (tick postTweetFn now h w))"
    by (auto simp add: s)
  moreover have "e \<notin> set (fst (listScheduledTweets (tick postTweetFn now h w)))"
    by (simp add: s)
  moreover have "\<not> running (jobs (tick postTweetFn now h w) ! h)"
    using a(3) l(1) by (simp add: t stop_running)
  moreover have "map_of (activeJobs (tick postTweetFn now h w)) (tweet_id e) = None"
    using a(4) by (simp add: t)
  moreover have "writes (tick postTweetFn now h w)
                   = writes w @ [filter (\<lambda>t. tweet_id t \<noteq> tweet_id e) (stored w)]"
    using a(2) by (simp add: t)
  ultimately show ?thesis using s by blast
qed

theorem tick_one_time_witness:
  "live_timer world_once 0 entry1 \<and> entry1 \<in> set (stored world_once) \<and> oneTime entry1
   \<and> distinct (map tweet_id (stored world_once)) \<and> fs_write_error world_once = None
   \<and> stored (tick post_ok (iso_now sys1) 0 world_once) = []
   \<and> \<not> running (jobs (tick post_ok (iso_now sys1) 0 world_once) ! 0)
   \<and> map_of (activeJobs (tick post_ok (iso_now sys1) 0 world_once)) (tweet_id entry1) = None
   \<and> writes (tick post_ok (iso_now sys1) 0 world_once) = [[entry1], []]"
proof -
  have s: "stored world_once = [entry1]" "writes world_once = [[entry1]]"
    by (simp_all add: world_once_eq stored_def loadScheduledTweets_def)
  have h1: "live_timer world_once 0 entry1" by (simp add: live_timer_def world_once_eq)
  have h2: "entry1 \<in> set (stored world_once)" by (simp add: s)
  have h3: "oneTime entry1" by (simp add: entry1_def)
  have h4: "distinct (map tweet_id (stored world_once))" by (simp add: s)
  have h5: "fs_write_error world_once = None" by (simp add: world_once_eq)
  show ?thesis
    using h1 h2 h3 h4 h5 s
      tick_one_time [where postTweetFn = post_ok and now = "iso_now sys1",
        OF h1 h2 h3 h4 h5]
    by simp
qed

text \<open>
  The claim C4 as stated fails for an entry that has fired before. The recurring entry
  of the running daemon has fired once and is stored with \<open>postCount\<close> 1; after two
  more firings in which the post resolves it is stored with \<open>postCount\<close> 3, not 2.
\<close>

theorem tick_recurring_twice_counterexample:
  "live_timer world_fired_once 0 entry0_fired
   \<and> stored world_fired_once = [entry0_fired]
   \<and> \<not> oneTime entry0_fired \<and> postCount entry0_fired = 1
   \<and> fs_write_error world_fired_once = None
   \<and> post_ok (tweet_text (captured (jobs world_fired_once ! 0))) = Resolved
   \<and> stored (tick post_ok (js ''2023-11-17T09:00:00.305Z'') 0
               (tick post_ok (js ''2023-11-16T09:00:00.412Z'') 0 world_fired_once))
       = [entry0\<lparr>lastPosted := Some (js ''2023-11-17T09:00:00.305Z''), postCount := 3\<rparr>]
   \<and> map postCount (stored (tick post_ok (js ''2023-11-17T09:00:00.305Z'') 0
                              (tick post_ok (js ''2023-11-16T09:00:00.412Z'') 0 world_fired_once)))
       = [3]"
proof -
  have e: "\<not> oneTime entry0" "postCount entry0 = 0" by (simp_all add: entry0_def)
  have a: "tick post_ok (js ''2023-11-16T09:00:00.412Z'') 0 world_fired_once
             = world_fired_once\<lparr>disk := Json (Some [entry0\<lparr>lastPosted :=
                   Some (js ''2023-11-16T09:00:00.412Z''), postCount := 2\<rparr>]),
                 posts := [tweet_text entry0, tweet_text entry0],
                 writes := [[entry0], [entry0_fired], [entry0\<lparr>lastPosted :=
                   Some (js ''2023-11-16T09:00:00.412Z''), postCount := 2\<rparr>]]\<rparr>"
    using e by (simp add: world_fired_once_eq tick_def callback_def after_post_def
        loadScheduledTweets_def saveScheduledTweets_def entry0_fired_def Let_def)
  have b: "stored (tick post_ok (js ''2023-11-17T09:00:00.305Z'') 0
                     (tick post_ok (js ''2023-11-16T09:00:00.412Z'') 0 world_fired_once))
             = [entry0\<lparr>lastPosted := Some (js ''2023-11-17T09:00:00.305Z''), postCount := 3\<rparr>]"
    using e by (simp add: a world_fired_once_eq tick_def callback_def after_post_def
        loadScheduledTweets_def saveScheduledTweets_def stored_def entry0_fired_def Let_def)
  have c: "live_timer world_fired_once 0 entry0_fired" "stored world_fired_once = [entry0_fired]"
    "\<not> oneTime entry0_fired" "postCount entry0_fired = 1"
    "fs_write_error world_fired_once = None"
    by (simp_all add: live_timer_def world_fired_once_eq stored_def loadScheduledTweets_def
        entry0_fired_def entry0_def)
  show ?thesis using c by (simp add: b)
qed

text \<open>
  Claim C4, amended. Let a live timer of a stored recurring entry fire twice, the posting
  function resolving both times and the file writable (ids in the file being unique).
  Afterwards the entry is still stored, with \<open>postCount\<close> two more than before (so 2
  for an entry that had not fired) and \<open>lastPosted\<close> the timestamp of the second
  firing; the other entries are as before.
\<close>

theorem tick_recurring_twice:
  assumes "live_timer w h e" and "e \<in> set (stored w)" and "\<not> oneTime e"
    and "distinct (map tweet_id (stored w))" and "fs_write_error w = None"
    and "post1 (tweet_text (captured (jobs w ! h))) = Resolved"
    and "post2 (tweet_text (captured (jobs w ! h))) = Resolved"
  shows "e\<lparr>lastPosted := Some now2, postCount := postCount e + 2\<rparr>
           \<in> set (stored (tick post2 now2 h (tick post1 now1 h w)))
         \<and> stored (tick post2 now2 h (tick post1 now1 h w))
             = map (\<lambda>t. if tweet_id t = tweet_id e
                         then e\<lparr>lastPosted := Some now2, postCount := postCount e + 2\<rparr> else t)
                 (stored w)"
proof -
  let ?w1 = "tick post1 now1 h w"
  let ?e1 = "e\<lparr>lastPosted := Some now1, postCount := postCount e + 1\<rparr>"
  let ?f1 = "\<lambda>t. if tweet_id t = tweet_id e
                  then t\<lparr>lastPosted := Some now1, postCount := postCount t + 1\<rparr> else t"
  let ?f2 = "\<lambda>t. if tweet_id t = tweet_id e
                  then t\<lparr>lastPosted := Some now2, postCount := postCount t + 1\<rparr> else t"
  note s1 = tick_recurring_step [where postTweetFn = post1 and now = now1, OF assms(1,2,3,4,5,6)]
  have j: "jobs ?w1 = jobs w" by (rule s1(2))
  have l1: "live_timer ?w1 h ?e1"
    using assms(1) by (simp add: live_timer_def j)
  have "?f1 e \<in> set (map ?f1 (stored w))"
    using assms(2) by (intro imageI [of e "set (stored w)" ?f1, folded set_map])
  then have m1: "?e1 \<in> set (stored ?w1)" by (simp add: s1(1))
  have "map tweet_id (map ?f1 (stored w)) = map tweet_id (stored w)"
    by (induction "stored w") auto
  then have d1: "distinct (map tweet_id (stored ?w1))"
    using assms(4) by (simp add: s1(1) del: map_map)
  have n1: "\<not> oneTime ?e1" using assms(3) by simp
  have p2: "post2 (tweet_text (captured (jobs ?w1 ! h))) = Resolved"
    using assms(7) by (simp add: j)
  note s2 = tick_recurring_step [where postTweetFn = post2 and now = now2, OF l1 m1 n1 d1 s1(4) p2]
  have "stored (tick post2 now2 h ?w1) = map ?f2 (map ?f1 (stored w))"
    using s2(1) by (simp add: s1(1))
  also have "\<dots> = map (\<lambda>t. if tweet_id t = tweet_id e
                         then e\<lparr>lastPosted := Some now2, postCount := postCount e + 2\<rparr> else t) (stored w)"
  proof -
    have "?f2 (?f1 t) = (if tweet_id t = tweet_id e
                           then e\<lparr>lastPosted := Some now2, postCount := postCount e + 2\<rparr> else t)"
      if "t \<in> set (stored w)" for t
    proof (cases "tweet_id t = tweet_id e")
      case True
      with that have "t = e" by (rule stored_id_unique [OF assms(4,2)])
      then show ?thesis by simp
    next
      case False
      then show ?thesis by simp
    qed
    then show ?thesis by simp
  qed
  finally have r: "stored (tick post2 now2 h ?w1)
                     = map (\<lambda>t. if tweet_id t = tweet_id e
                                 then e\<lparr>lastPosted := Some now2, postCount := postCount e + 2\<rparr> else t)
                         (stored w)" .
  have "e\<lparr>lastPosted := Some now2, postCount := postCount e + 2\<rparr> \<in> set (stored (tick post2 now2 h ?w1))"
    using assms(2) by (force simp add: r)
  with r show ?thesis by blast
qed

theorem tick_recurring_twice_witness:
  "live_timer world_started 0 entry0 \<and> entry0 \<in> set (stored world_started)
   \<and> \<not> oneTime entry0
   \<and> distinct (map tweet_id (stored world_started)) \<and> fs_write_error world_started = None
   \<and> post_ok (tweet_text (captured (jobs world_started ! 0))) = Resolved
   \<and> stored (tick post_ok (js ''2023-11-16T09:00:00.412Z'') 0
               (tick post_ok (js ''2023-11-15T09:00:00.238Z'') 0 world_started))
       = [entry0\<lparr>lastPosted := Some (js ''2023-11-16T09:00:00.412Z''), postCount := 2\<rparr>]"
proof -
  have s: "stored world_started = [entry0]"
    by (simp add: world_started_eq stored_def loadScheduledTweets_def)
  have h1: "live_timer world_started 0 entry0" by (simp add: live_timer_def world_started_eq)
  have h2: "entry0 \<in> set (stored world_started)" by (simp add: s)
  have h3: "\<not> oneTime entry0" by (simp add: entry0_def)
  have h4: "distinct (map tweet_id (stored world_started))" by (simp add: s)
  have h5: "fs_write_error world_started = None" by (simp add: world_started_eq)
  have h6: "post_ok (tweet_text (captured (jobs world_started ! 0))) = Resolved" by simp
  have c: "postCount entry0 + 2 = 2" by (simp add: entry0_def)
  show ?thesis
    using h1 h2 h3 h4 h5 h6 s c
      tick_recurring_twice [where ?post1.0 = post_ok and ?post2.0 = post_ok
        and ?now1.0 = "js ''2023-11-15T09:00:00.238Z''"
        and ?now2.0 = "js ''2023-11-16T09:00:00.412Z''", OF h1 h2 h3 h4 h5 h6 h6]
    by simp
qed

text \<open>
  Claim C5. When a live timer fires and the posting function rejects, the schedule file
  is untouched (nothing is written, and loading returns the same entries with the same
  counters), the task keeps running and stays registered, and the callback returns
  after printing one error line with the entry's id and the rejection's message.
\<close>

theorem tick_rejected:
  assumes "h < length (jobs w)" and "running (jobs w ! h)"
    and "postTweetFn (tweet_text (captured (jobs w ! h))) = Rejected msg"
  shows "disk (tick postTweetFn now h w) = disk w
         \<and> writes (tick postTweetFn now h w) = writes w
         \<and> stored (tick postTweetFn now h w) = stored w
         \<and> jobs (tick postTweetFn now h w) = jobs w
         \<and> activeJobs (tick postTweetFn now h w) = activeJobs w
         \<and> stderr (tick postTweetFn now h w)
             = stderr w @ [[0x2717, 0x20] @ js ''Failed to post scheduled tweet ''
                            @ tweet_id (captured (jobs w ! h)) @ js '': '' @ msg]"
proof -
  let ?w1 = "w\<lparr>posts := posts w @ [tweet_text (captured (jobs w ! h))]\<rparr>"
  have t: "tick postTweetFn now h w
             = logger_error (js ''Failed to post scheduled tweet ''
                 @ tweet_id (captured (jobs w ! h)) @ js '': '' @ msg) ?w1"
    using assms by (simp add: tick_def callback_def Let_def)
  have "stored (tick postTweetFn now h w) = stored w"
    by (rule stored_disk) (simp add: t)
  then show ?thesis by (simp add: t)
qed

theorem tick_rejected_witness:
  "0 < length (jobs world_started) \<and> running (jobs world_started ! 0)
   \<and> disk (tick post_forbidden (iso_now sys1) 0 world_started)
       = disk world_started
   \<and> writes (tick post_forbidden (iso_now sys1) 0 world_started)
       = writes world_started
   \<and> stored (tick post_forbidden (iso_now sys1) 0 world_started) = [entry0]
   \<and> jobs (tick post_forbidden (iso_now sys1) 0 world_started)
       = jobs world_started
   \<and> activeJobs (tick post_forbidden (iso_now sys1) 0 world_started)
       = activeJobs world_started
   \<and> stderr (tick post_forbidden (iso_now sys1) 0 world_started)
       = [[0x2717, 0x20] @ js ''Failed to post scheduled tweet '' @ tweet_id entry0
            @ js '': '' @ js ''Forbidden'']"
proof -
  have h1: "0 < length (jobs world_started)" by (simp add: world_started_eq)
  have h2: "running (jobs world_started ! 0)" by (simp add: world_started_eq)
  have s: "stored world_started = [entry0]" "stderr world_started = []"
    "captured (jobs world_started ! 0) = entry0"
    by (simp_all add: world_started_eq stored_def loadScheduledTweets_def)
  show ?thesis
    using h1 h2 s
      tick_rejected [where h = 0 and w = world_started
        and postTweetFn = post_forbidden and msg = "js ''Forbidden''"
        and now = "iso_now sys1", OF h1 h2]
    by simp
qed

section \<open>Removing an entry\<close>



end
